theory Spec2Isabelle
  imports Complex_Main "HOL-Library.Finite_Map"
begin

section \<open>Data model\<close>

text \<open>
  A point in time (Go's \<open>time.Time\<close> in the structs, SQLite's \<open>CURRENT_TIMESTAMP\<close> in the
  tables) is a count of clock ticks.
\<close>

type_synonym instant = nat

text \<open>
  JSON documents as Go's \<open>encoding/json\<close> sees them once decoded into \<open>interface{}\<close>:
  an object is a \<open>map[string]interface{}\<close>, that is a finite map with unique, unordered keys.
  Numbers are left out: the documents that \<open>createOutboxMessage\<close> writes hold strings, arrays
  of strings and objects only (a \<open>time.Time\<close> is marshalled as a string).
\<close>

datatype json =
    JNull
  | JBool bool
  | JString string
  | JArray "json list"
  | JObject "(string, json) fmap"

text \<open>
  The \<open>data TEXT NOT NULL\<close> column of the outbox table: either the text of a JSON document
  (what \<open>json.Marshal\<close> wrote) or some other text that does not parse.
\<close>

datatype data_text = Marshalled json | Unparsable string

text \<open>\<open>type OrderRequest struct\<close> of order-improved.\<close>

record OrderRequest =
  OrderID :: string
  UserName :: string
  UserEmail :: string
  DeviceID :: string

text \<open>A row of \<open>CREATE TABLE orders\<close> (\<open>type OrderRecord struct\<close>).\<close>

record OrderRecord =
  o_id :: nat
  o_order_id :: string
  o_user_name :: string
  o_user_email :: string
  o_device_id :: string
  o_status :: string
  o_created_at :: instant
  o_updated_at :: instant

text \<open>A row of \<open>CREATE TABLE outbox\<close> (\<open>type OutboxMessage struct\<close>); \<open>finished_at\<close> is nullable.\<close>

record OutboxMessage =
  m_id :: nat
  m_status :: string
  m_type :: string
  m_data :: data_text
  m_created_at :: instant
  m_finished_at :: "instant option"

text \<open>
  The SQLite file \<open>./order_improved.db\<close>. A table is the list of its rows in rowid order, the
  order of the table's B-tree and of a scan that uses no index; \<open>orders_seq\<close> and
  \<open>outbox_seq\<close> are the two \<open>AUTOINCREMENT\<close> counters (\<open>sqlite_sequence\<close>).
\<close>

record store =
  orders :: "OrderRecord list"
  orders_seq :: nat
  outbox :: "OutboxMessage list"
  outbox_seq :: nat

text \<open>What \<open>initDB\<close> leaves: both tables dropped and created again.\<close>

definition initDB :: store where
  "initDB = \<lparr>orders = [], orders_seq = 0, outbox = [], outbox_seq = 0\<rparr>"

text \<open>An HTTP request sent with \<open>http.Post(url, "application/json", body)\<close>.\<close>

record http_call =
  url :: string
  body :: json

text \<open>What \<open>http.Post\<close> returns: an error, or a response with its status code.\<close>

datatype http_result = TransportError | Response nat

text \<open>
  The state the two programs act on: the database file and the requests that have gone out to
  the collaborators so far.
\<close>

record sys =
  db :: store
  net :: "http_call list"

text \<open>\<open>c.JSON(code, map[string]string{key: message})\<close>: status code, key, message.\<close>

type_synonym response = "nat \<times> string \<times> string"

section \<open>SQL statements\<close>

text \<open>
  \<open>INTEGER PRIMARY KEY AUTOINCREMENT\<close>: the new rowid is one more than the largest rowid that
  the table holds or has ever held.
\<close>

definition next_rowid :: "nat list \<Rightarrow> nat \<Rightarrow> nat" where
  "next_rowid ids seq = Suc (fold max ids seq)"

text \<open>
  \<open>INSERT INTO orders (order_id, user_name, user_email, device_id, status) VALUES (?, ?, ?, ?, ?)\<close>;
  \<open>created_at\<close> and \<open>updated_at\<close> take their default \<open>CURRENT_TIMESTAMP\<close>.
\<close>

definition insert_order ::
  "instant \<Rightarrow> string \<Rightarrow> string \<Rightarrow> string \<Rightarrow> string \<Rightarrow> string \<Rightarrow> store \<Rightarrow> store" where
  "insert_order now order_id user_name user_email device_id status d =
     (let i = next_rowid (map o_id (orders d)) (orders_seq d)
      in d\<lparr>orders := orders d @
             [\<lparr>o_id = i, o_order_id = order_id, o_user_name = user_name,
               o_user_email = user_email, o_device_id = device_id, o_status = status,
               o_created_at = now, o_updated_at = now\<rparr>],
           orders_seq := i\<rparr>)"

text \<open>\<open>UPDATE orders SET status = 'FINISHED', updated_at = CURRENT_TIMESTAMP WHERE order_id = ?\<close>\<close>

definition finish_row :: "instant \<Rightarrow> string \<Rightarrow> OrderRecord \<Rightarrow> OrderRecord" where
  "finish_row now order_id r =
     (if o_order_id r = order_id then r\<lparr>o_status := ''FINISHED'', o_updated_at := now\<rparr> else r)"

definition update_orders_finished :: "instant \<Rightarrow> string \<Rightarrow> store \<Rightarrow> store" where
  "update_orders_finished now order_id d = d\<lparr>orders := map (finish_row now order_id) (orders d)\<rparr>"

text \<open>
  \<open>INSERT INTO outbox (status, type, data) VALUES (?, ?, ?)\<close>; \<open>created_at\<close> takes its default
  and \<open>finished_at\<close> stays \<open>NULL\<close>.
\<close>

definition insert_outbox :: "instant \<Rightarrow> string \<Rightarrow> string \<Rightarrow> data_text \<Rightarrow> store \<Rightarrow> store" where
  "insert_outbox now status type data d =
     (let i = next_rowid (map m_id (outbox d)) (outbox_seq d)
      in d\<lparr>outbox := outbox d @
             [\<lparr>m_id = i, m_status = status, m_type = type, m_data = data,
               m_created_at = now, m_finished_at = None\<rparr>],
           outbox_seq := i\<rparr>)"

text \<open>\<open>UPDATE outbox SET status = 'FINISHED', finished_at = CURRENT_TIMESTAMP WHERE id = ?\<close>\<close>

definition mark_row :: "instant \<Rightarrow> nat \<Rightarrow> OutboxMessage \<Rightarrow> OutboxMessage" where
  "mark_row now i m =
     (if m_id m = i then m\<lparr>m_status := ''FINISHED'', m_finished_at := Some now\<rparr> else m)"

definition update_outbox_finished :: "instant \<Rightarrow> nat \<Rightarrow> store \<Rightarrow> store" where
  "update_outbox_finished now i d = d\<lparr>outbox := map (mark_row now i) (outbox d)\<rparr>"

text \<open>
  \<open>SELECT id, status, type, data, created_at FROM outbox WHERE status = 'PENDING'\<close>: no
  \<open>ORDER BY\<close> and no \<open>LIMIT\<close>; the rows come in the order of the table scan.
\<close>

definition select_pending :: "store \<Rightarrow> OutboxMessage list" where
  "select_pending d = filter (\<lambda>m. m_status m = ''PENDING'') (outbox d)"

section \<open>order-improved: \<open>handleFinishOrder\<close>\<close>

text \<open>
  What one call of the handler takes from outside the program:
  \<^item> \<open>rand_Float32\<close>: the draw of \<open>rand.Float32()\<close>, a number in \<open>[0, 1)\<close>;
  \<^item> \<open>begin_err\<close>, \<open>commit_err\<close>: whether \<open>db.Begin()\<close> and \<open>tx.Commit()\<close> return an error;
  \<^item> \<open>exec_err n\<close>: whether the \<open>n\<close>-th \<open>tx.Exec\<close> of the call returns an error
    (0 the order insert, 1 the status update, 2, 3 and 4 the outbox inserts; for these three
    it stands for either error return of \<open>createOutboxMessage\<close>, \<open>json.Marshal\<close> or \<open>tx.Exec\<close>);
  \<^item> \<open>db_clock n\<close>: \<open>CURRENT_TIMESTAMP\<close> while that statement runs;
  \<^item> \<open>time_Now\<close>: \<open>time.Now()\<close> in the RFC 3339 text that \<open>json.Marshal\<close> writes for it.
\<close>

record order_env =
  rand_Float32 :: rat
  begin_err :: bool
  exec_err :: "nat \<Rightarrow> bool"
  commit_err :: bool
  db_clock :: "nat \<Rightarrow> instant"
  time_Now :: string

text \<open>
  \<open>createOutboxMessage(tx, messageType, data)\<close>: marshal the data, insert one \<open>PENDING\<close> row.
  \<open>None\<close> is the returned error; \<open>n\<close> is the ordinal of its \<open>tx.Exec\<close>.
\<close>

definition createOutboxMessage ::
  "order_env \<Rightarrow> nat \<Rightarrow> store \<Rightarrow> string \<Rightarrow> (string \<times> json) list \<Rightarrow> store option" where
  "createOutboxMessage e n tx messageType data =
     (let jsonData = Marshalled (JObject (fmap_of_list data))
      in if exec_err e n then None
         else Some (insert_outbox (db_clock e n) ''PENDING'' messageType jsonData tx))"

text \<open>The three \<open>map[string]interface{}\<close> literals of the handler.\<close>

definition email_data :: "OrderRequest \<Rightarrow> (string \<times> json) list" where
  "email_data req =
     [(''recipients'', JArray [JString (UserEmail req)]),
      (''subject'', JString ''Order Completed''),
      (''body'', JString (''Your order '' @ OrderID req @ '' has been completed successfully!''))]"

definition notify_data :: "OrderRequest \<Rightarrow> (string \<times> json) list" where
  "notify_data req =
     [(''deviceId'', JArray [JString (DeviceID req)]),
      (''message'', JString (''Order '' @ OrderID req @ '' completed successfully!''))]"

definition analytic_data :: "order_env \<Rightarrow> OrderRequest \<Rightarrow> (string \<times> json) list" where
  "analytic_data e req =
     [(''event'', JString ''order_completed''),
      (''orderId'', JString (OrderID req)),
      (''userEmail'', JString (UserEmail req)),
      (''timestamp'', JString (time_Now e))]"

text \<open>
  \<open>handleFinishOrder\<close>. The second argument is the outcome of \<open>c.Bind(&req)\<close>: \<open>None\<close> when it
  returns an error, otherwise the bound struct (\<open>var req OrderRequest\<close> starts with four empty
  strings, and a field the body does not carry stays empty). The transaction \<open>tx\<close> works on a
  copy of the database; \<open>tx.Commit()\<close> installs the copy, and every other return leaves the
  database as it was (\<open>defer tx.Rollback()\<close>).
\<close>

definition handleFinishOrder :: "order_env \<Rightarrow> OrderRequest option \<Rightarrow> sys \<Rightarrow> response \<times> sys" where
  "handleFinishOrder e bound s =
     (case bound of
        None \<Rightarrow> ((400, ''error'', ''invalid request''), s)
      | Some req \<Rightarrow>
          if rand_Float32 e < 1 / 10 then ((500, ''error'', ''random failure occurred''), s)
          else if begin_err e then ((500, ''error'', ''failed to start transaction''), s)
          else if exec_err e 0 then ((500, ''error'', ''failed to create order''), s)
          else
            let tx = insert_order (db_clock e 0) (OrderID req) (UserName req) (UserEmail req)
                       (DeviceID req) ''PENDING'' (db s)
            in if exec_err e 1 then ((500, ''error'', ''failed to update order status''), s)
               else
                 let tx = update_orders_finished (db_clock e 1) (OrderID req) tx
                 in (case createOutboxMessage e 2 tx ''EMAIL'' (email_data req) of
                      None \<Rightarrow> ((500, ''error'', ''failed to create email outbox message''), s)
                    | Some tx \<Rightarrow>
                        (case createOutboxMessage e 3 tx ''NOTIFY'' (notify_data req) of
                           None \<Rightarrow>
                             ((500, ''error'', ''failed to create notification outbox message''), s)
                         | Some tx \<Rightarrow>
                             (case createOutboxMessage e 4 tx ''ANALYTIC'' (analytic_data e req) of
                                None \<Rightarrow>
                                  ((500, ''error'', ''failed to create analytics outbox message''), s)
                              | Some tx \<Rightarrow>
                                  if commit_err e
                                  then ((500, ''error'', ''failed to commit transaction''), s)
                                  else ((200, ''status'', ''order finished successfully''),
                                        s\<lparr>db := tx\<rparr>)))))"

section \<open>outbox-worker\<close>

text \<open>
  What one tick of the worker takes from outside the program; the numbers are message ids:
  \<^item> \<open>count_err\<close>, \<open>query_err\<close>: whether the \<open>COUNT(*)\<close> query and the row query return an error;
  \<^item> \<open>scan_err i\<close>: whether \<open>rows.Scan\<close> of message \<open>i\<close> returns an error;
  \<^item> \<open>rand_draw i\<close>: the draw of \<open>rand.Float32()\<close> made for message \<open>i\<close>;
  \<^item> \<open>http_Post i u b\<close>: what \<open>http.Post\<close> returns for the request made for message \<open>i\<close>;
  \<^item> \<open>mark_err i\<close>, \<open>mark_clock i\<close>: whether the \<open>UPDATE\<close> of message \<open>i\<close> returns an error, and
    \<open>CURRENT_TIMESTAMP\<close> while it runs.
\<close>

record relay_env =
  count_err :: bool
  query_err :: bool
  scan_err :: "nat \<Rightarrow> bool"
  rand_draw :: "nat \<Rightarrow> rat"
  http_Post :: "nat \<Rightarrow> string \<Rightarrow> json \<Rightarrow> http_result"
  mark_err :: "nat \<Rightarrow> bool"
  mark_clock :: "nat \<Rightarrow> instant"

text \<open>The errors the message handlers return (\<open>fmt.Errorf\<close>).\<close>

datatype relay_error =
    UnmarshalFailed
  | CallFailed
  | BadStatus nat
  | UnknownType string

text \<open>
  \<open>json.Unmarshal([]byte(message.Data), &m)\<close> with \<open>var m map[string]interface{}\<close>: an object
  fills the map, \<open>null\<close> leaves it \<open>nil\<close>, anything else is an error. The outer \<open>None\<close> is the
  error, the inner one the \<open>nil\<close> map.
\<close>

type_synonym gomap = "(string, json) fmap option"

definition Unmarshal :: "data_text \<Rightarrow> gomap option" where
  "Unmarshal d =
     (case d of
        Unparsable t \<Rightarrow> None
      | Marshalled j \<Rightarrow>
          (case j of JObject m \<Rightarrow> Some (Some m) | JNull \<Rightarrow> Some None | _ \<Rightarrow> None))"

text \<open>\<open>json.Marshal\<close> of such a map: a \<open>nil\<close> map is written \<open>null\<close>.\<close>

definition Marshal :: "gomap \<Rightarrow> json" where
  "Marshal m = (case m of None \<Rightarrow> JNull | Some kv \<Rightarrow> JObject kv)"

definition processEmailMessage ::
  "relay_env \<Rightarrow> OutboxMessage \<Rightarrow> relay_error option \<times> http_call list" where
  "processEmailMessage e message =
     (case Unmarshal (m_data message) of
        None \<Rightarrow> (Some UnmarshalFailed, [])
      | Some emailData \<Rightarrow>
          let jsonData = Marshal emailData;
              call = \<lparr>url = ''http://localhost:8081/send-email'', body = jsonData\<rparr>
          in (case http_Post e (m_id message) (url call) jsonData of
                TransportError \<Rightarrow> (Some CallFailed, [call])
              | Response code \<Rightarrow>
                  if code \<noteq> 200 then (Some (BadStatus code), [call]) else (None, [call])))"

definition processNotificationMessage ::
  "relay_env \<Rightarrow> OutboxMessage \<Rightarrow> relay_error option \<times> http_call list" where
  "processNotificationMessage e message =
     (case Unmarshal (m_data message) of
        None \<Rightarrow> (Some UnmarshalFailed, [])
      | Some notificationData \<Rightarrow>
          let jsonData = Marshal notificationData;
              call = \<lparr>url = ''http://localhost:8082/send-notification'', body = jsonData\<rparr>
          in (case http_Post e (m_id message) (url call) jsonData of
                TransportError \<Rightarrow> (Some CallFailed, [call])
              | Response code \<Rightarrow>
                  if code \<noteq> 200 then (Some (BadStatus code), [call]) else (None, [call])))"

definition processAnalyticsMessage ::
  "relay_env \<Rightarrow> OutboxMessage \<Rightarrow> relay_error option \<times> http_call list" where
  "processAnalyticsMessage e message =
     (case Unmarshal (m_data message) of
        None \<Rightarrow> (Some UnmarshalFailed, [])
      | Some analyticsData \<Rightarrow>
          let payloadData = Some (fmap_of_list [(''payload'', Marshal analyticsData)]);
              jsonData = Marshal payloadData;
              call = \<lparr>url = ''http://localhost:9000/events'', body = jsonData\<rparr>
          in (case http_Post e (m_id message) (url call) jsonData of
                TransportError \<Rightarrow> (Some CallFailed, [call])
              | Response code \<Rightarrow>
                  if code \<noteq> 200 then (Some (BadStatus code), [call]) else (None, [call])))"

definition processMessage ::
  "relay_env \<Rightarrow> OutboxMessage \<Rightarrow> relay_error option \<times> http_call list" where
  "processMessage e message =
     (if m_type message = ''EMAIL'' then processEmailMessage e message
      else if m_type message = ''NOTIFY'' then processNotificationMessage e message
      else if m_type message = ''ANALYTIC'' then processAnalyticsMessage e message
      else (Some (UnknownType (m_type message)), []))"

text \<open>
  \<open>rows.Scan(&message.ID, &message.Status, &message.Type, &message.Data, &message.CreatedAt)\<close>
  into a fresh struct: \<open>FinishedAt\<close> is not selected and stays \<open>nil\<close>.
\<close>

definition scan :: "OutboxMessage \<Rightarrow> OutboxMessage" where
  "scan row = row\<lparr>m_finished_at := None\<rparr>"

text \<open>The body of \<open>for rows.Next()\<close> for one row; each \<open>continue\<close> returns the state so far.\<close>

definition relay_step :: "relay_env \<Rightarrow> OutboxMessage \<Rightarrow> sys \<Rightarrow> sys" where
  "relay_step e row s =
     (if scan_err e (m_id row) then s
      else
        let message = scan row
        in if rand_draw e (m_id message) < 3 / 10 then s
           else
             case processMessage e message of
               (Some err, calls) \<Rightarrow> s\<lparr>net := net s @ calls\<rparr>
             | (None, calls) \<Rightarrow>
                 if mark_err e (m_id message) then s\<lparr>net := net s @ calls\<rparr>
                 else s\<lparr>net := net s @ calls,
                        db := update_outbox_finished (mark_clock e (m_id message))
                                (m_id message) (db s)\<rparr>)"

fun relay_loop :: "relay_env \<Rightarrow> OutboxMessage list \<Rightarrow> sys \<Rightarrow> sys" where
  "relay_loop e [] s = s"
| "relay_loop e (row # rows) s = relay_loop e rows (relay_step e row s)"

text \<open>
  \<open>processOutboxMessages\<close>, one tick. The sample query only logs. The cursor \<open>rows\<close> reads the
  rows that were \<open>PENDING\<close> when the query ran; the updates of the loop go through \<open>db.Exec\<close>.
\<close>

definition processOutboxMessages :: "relay_env \<Rightarrow> sys \<Rightarrow> sys" where
  "processOutboxMessages e s =
     (if count_err e then s
      else
        let count = length (select_pending (db s))
        in if count = 0 then s
           else if query_err e then s
           else relay_loop e (select_pending (db s)) s)"

section \<open>Auxiliary notions\<close>

text \<open>
  No fault during a call of the handler: the draw does not trigger the random failure and
  none of \<open>db.Begin\<close>, the five \<open>tx.Exec\<close> and \<open>tx.Commit\<close> returns an error.
\<close>

definition no_fault :: "order_env \<Rightarrow> bool" where
  "no_fault e \<longleftrightarrow>
     \<not> rand_Float32 e < 1 / 10 \<and> \<not> begin_err e \<and> \<not> exec_err e 0 \<and> \<not> exec_err e 1 \<and>
     \<not> exec_err e 2 \<and> \<not> exec_err e 3 \<and> \<not> exec_err e 4 \<and> \<not> commit_err e"

text \<open>The five statements of the transaction, in the order the handler runs them.\<close>

definition committed :: "order_env \<Rightarrow> OrderRequest \<Rightarrow> store \<Rightarrow> store" where
  "committed e req d =
     insert_outbox (db_clock e 4) ''PENDING'' ''ANALYTIC''
       (Marshalled (JObject (fmap_of_list (analytic_data e req))))
       (insert_outbox (db_clock e 3) ''PENDING'' ''NOTIFY''
          (Marshalled (JObject (fmap_of_list (notify_data req))))
          (insert_outbox (db_clock e 2) ''PENDING'' ''EMAIL''
             (Marshalled (JObject (fmap_of_list (email_data req))))
             (update_orders_finished (db_clock e 1) (OrderID req)
                (insert_order (db_clock e 0) (OrderID req) (UserName req) (UserEmail req)
                   (DeviceID req) ''PENDING'' d))))"

text \<open>The rows of the second table state that the first does not have, by id.\<close>

definition new_orders :: "store \<Rightarrow> store \<Rightarrow> OrderRecord list" where
  "new_orders d d' = filter (\<lambda>r. o_id r \<notin> set (map o_id (orders d))) (orders d')"

definition new_outbox :: "store \<Rightarrow> store \<Rightarrow> OutboxMessage list" where
  "new_outbox d d' = filter (\<lambda>m. m_id m \<notin> set (map m_id (outbox d))) (outbox d')"

text \<open>
  Concrete inputs: a request, a fault-free environment, a request whose four fields are empty,
  the state after \<open>initDB\<close>.
\<close>

definition req_O1 :: OrderRequest where
  "req_O1 = \<lparr>OrderID = ''O1'', UserName = ''Alice'', UserEmail = ''a@x.com'', DeviceID = ''D1''\<rparr>"

definition env_ok :: order_env where
  "env_ok = \<lparr>rand_Float32 = 1 / 2, begin_err = False, exec_err = (\<lambda>n. False),
             commit_err = False, db_clock = (\<lambda>n. 100 + n),
             time_Now = ''2025-01-01T00:00:00Z''\<rparr>"

definition req_empty :: OrderRequest where
  "req_empty = \<lparr>OrderID = '''', UserName = '''', UserEmail = '''', DeviceID = ''''\<rparr>"

definition sys0 :: sys where
  "sys0 = \<lparr>db = initDB, net = []\<rparr>"

text \<open>
  A second environment that differs from \<open>env_ok\<close> in the reading of \<open>time.Now()\<close> only; the
  state after one committed call; an environment for a second call, with a later database clock.
\<close>

definition env_later :: order_env where
  "env_later = env_ok\<lparr>time_Now := ''2025-01-01T00:00:01Z''\<rparr>"

definition sys1 :: sys where
  "sys1 = snd (handleFinishOrder env_ok (Some req_O1) sys0)"

definition env_second :: order_env where
  "env_second = env_ok\<lparr>db_clock := (\<lambda>n. 200 + n)\<rparr>"

text \<open>
  For the worker: whether a row goes through every step of the loop body, the requests the loop
  body sends for a row, and a row after its \<open>UPDATE\<close>.
\<close>

definition delivered :: "relay_env \<Rightarrow> OutboxMessage \<Rightarrow> bool" where
  "delivered e row \<longleftrightarrow>
     \<not> scan_err e (m_id row) \<and> \<not> rand_draw e (m_id row) < 3 / 10 \<and>
     fst (processMessage e (scan row)) = None \<and> \<not> mark_err e (m_id row)"

definition dispatch_of :: "relay_env \<Rightarrow> OutboxMessage \<Rightarrow> http_call list" where
  "dispatch_of e row =
     (if scan_err e (m_id row) \<or> rand_draw e (m_id row) < 3 / 10 then []
      else snd (processMessage e (scan row)))"

definition marked :: "relay_env \<Rightarrow> OutboxMessage \<Rightarrow> OutboxMessage" where
  "marked e m = m\<lparr>m_status := ''FINISHED'', m_finished_at := Some (mark_clock e (m_id m))\<rparr>"

text \<open>
  Concrete inputs for the worker: four rows (the second already \<open>FINISHED\<close>, the fourth of an
  unknown type), a state holding them, and an environment in which the email endpoint answers
  500 and the others 200.
\<close>

definition msg1 :: OutboxMessage where
  "msg1 = \<lparr>m_id = 1, m_status = ''PENDING'', m_type = ''EMAIL'',
     m_data = Marshalled (JObject (fmap_of_list [(''subject'', JString ''Order Completed'')])),
     m_created_at = 102, m_finished_at = None\<rparr>"

definition msg2 :: OutboxMessage where
  "msg2 = \<lparr>m_id = 2, m_status = ''FINISHED'', m_type = ''NOTIFY'',
     m_data = Marshalled (JObject (fmap_of_list [(''message'', JString ''Order O1 completed successfully!'')])),
     m_created_at = 103, m_finished_at = Some 250\<rparr>"

definition msg3 :: OutboxMessage where
  "msg3 = \<lparr>m_id = 3, m_status = ''PENDING'', m_type = ''ANALYTIC'',
     m_data = Marshalled (JObject (fmap_of_list [(''event'', JString ''order_completed'')])),
     m_created_at = 104, m_finished_at = None\<rparr>"

definition msg4 :: OutboxMessage where
  "msg4 = \<lparr>m_id = 4, m_status = ''PENDING'', m_type = ''SMS'',
     m_data = Marshalled JNull, m_created_at = 105, m_finished_at = None\<rparr>"

definition sys_relay :: sys where
  "sys_relay = \<lparr>db = \<lparr>orders = [], orders_seq = 0, outbox = [msg1, msg2, msg3, msg4],
                       outbox_seq = 4\<rparr>,
                net = []\<rparr>"

definition relay_flaky :: relay_env where
  "relay_flaky = \<lparr>count_err = False, query_err = False, scan_err = (\<lambda>i. False),
     rand_draw = (\<lambda>i. 1 / 2),
     http_Post = (\<lambda>i u b. if i = 1 then Response 500 else Response 200),
     mark_err = (\<lambda>i. False), mark_clock = (\<lambda>i. 300 + i)\<rparr>"

section \<open>Row ids\<close>

lemma fold_max_ge: "seq \<le> fold max ids (seq::nat)"
  by (induction ids arbitrary: seq) (auto intro: order_trans [OF max.cobounded2])

lemma fold_max_mem: "x \<in> set ids \<Longrightarrow> x \<le> fold max ids (seq::nat)"
proof (induction ids arbitrary: seq)
  case Nil
  then show ?case by simp
next
  case (Cons a ids)
  show ?case
  proof (cases "x = a")
    case True
    have "a \<le> max a seq" by simp
    also have "\<dots> \<le> fold max ids (max a seq)" by (rule fold_max_ge)
    finally show ?thesis using True by simp
  next
    case False
    with Cons show ?thesis by simp
  qed
qed

lemma next_rowid_fresh: "next_rowid ids seq \<notin> set ids"
  using fold_max_mem [of "next_rowid ids seq" ids seq] by (auto simp: next_rowid_def)

lemma next_rowid_gt: "x \<in> set ids \<Longrightarrow> x < next_rowid ids seq"
  using fold_max_mem [of x ids seq] by (simp add: next_rowid_def)

lemma next_rowid_gt_seq: "seq < next_rowid ids seq"
  using fold_max_ge [of seq ids] by (simp add: next_rowid_def)

section \<open>The handler in closed form\<close>

lemma handle_ok:
  "no_fault e \<Longrightarrow> handleFinishOrder e (Some req) s =
     ((200, ''status'', ''order finished successfully''), s\<lparr>db := committed e req (db s)\<rparr>)"
  by (simp add: handleFinishOrder_def no_fault_def committed_def createOutboxMessage_def)

lemma handle_fault:
  "\<not> no_fault e \<Longrightarrow> \<exists>msg. handleFinishOrder e (Some req) s = ((500, ''error'', msg), s)"
  by (auto simp add: handleFinishOrder_def no_fault_def createOutboxMessage_def)

lemma handle_200_iff: "fst (fst (handleFinishOrder e (Some req) s)) = 200 \<longleftrightarrow> no_fault e"
proof (cases "no_fault e")
  case True
  then show ?thesis by (simp add: handle_ok)
next
  case False
  from handle_fault [OF False, of req s] obtain msg
    where "handleFinishOrder e (Some req) s = ((500, ''error'', msg), s)" by blast
  with False show ?thesis by simp
qed

lemma no_fault_env_ok: "no_fault env_ok"
  by (simp add: no_fault_def env_ok_def)

lemma finish_row_id [simp]: "o_id (finish_row now oid r) = o_id r"
  by (simp add: finish_row_def)

lemma map_id_finish_row [simp]: "map o_id (map (finish_row now oid) rs) = map o_id rs"
  by (induction rs) simp_all

lemma committed_orders:
  "orders (committed e req d) =
     map (finish_row (db_clock e 1) (OrderID req)) (orders d) @
     [\<lparr>o_id = next_rowid (map o_id (orders d)) (orders_seq d), o_order_id = OrderID req,
       o_user_name = UserName req, o_user_email = UserEmail req, o_device_id = DeviceID req,
       o_status = ''FINISHED'', o_created_at = db_clock e 0, o_updated_at = db_clock e 1\<rparr>]"
  by (simp add: committed_def insert_outbox_def update_orders_finished_def insert_order_def
      Let_def finish_row_def)

lemma committed_outbox:
  "\<exists>i1 i2 i3.
     outbox (committed e req d) = outbox d @
       [\<lparr>m_id = i1, m_status = ''PENDING'', m_type = ''EMAIL'',
         m_data = Marshalled (JObject (fmap_of_list (email_data req))),
         m_created_at = db_clock e 2, m_finished_at = None\<rparr>,
        \<lparr>m_id = i2, m_status = ''PENDING'', m_type = ''NOTIFY'',
         m_data = Marshalled (JObject (fmap_of_list (notify_data req))),
         m_created_at = db_clock e 3, m_finished_at = None\<rparr>,
        \<lparr>m_id = i3, m_status = ''PENDING'', m_type = ''ANALYTIC'',
         m_data = Marshalled (JObject (fmap_of_list (analytic_data e req))),
         m_created_at = db_clock e 4, m_finished_at = None\<rparr>] \<and>
     i1 < i2 \<and> i2 < i3 \<and> (\<forall>x \<in> set (map m_id (outbox d)). x < i1)"
proof -
  define i1 where "i1 = next_rowid (map m_id (outbox d)) (outbox_seq d)"
  define i2 where "i2 = next_rowid (map m_id (outbox d) @ [i1]) i1"
  define i3 where "i3 = next_rowid (map m_id (outbox d) @ [i1, i2]) i2"
  have "i1 < i2" unfolding i2_def by (rule next_rowid_gt_seq)
  moreover have "i2 < i3" unfolding i3_def by (rule next_rowid_gt_seq)
  moreover have "\<forall>x \<in> set (map m_id (outbox d)). x < i1"
    unfolding i1_def by (blast intro: next_rowid_gt)
  moreover have "outbox (committed e req d) = outbox d @
       [\<lparr>m_id = i1, m_status = ''PENDING'', m_type = ''EMAIL'',
         m_data = Marshalled (JObject (fmap_of_list (email_data req))),
         m_created_at = db_clock e 2, m_finished_at = None\<rparr>,
        \<lparr>m_id = i2, m_status = ''PENDING'', m_type = ''NOTIFY'',
         m_data = Marshalled (JObject (fmap_of_list (notify_data req))),
         m_created_at = db_clock e 3, m_finished_at = None\<rparr>,
        \<lparr>m_id = i3, m_status = ''PENDING'', m_type = ''ANALYTIC'',
         m_data = Marshalled (JObject (fmap_of_list (analytic_data e req))),
         m_created_at = db_clock e 4, m_finished_at = None\<rparr>]"
    by (simp add: committed_def insert_outbox_def update_orders_finished_def insert_order_def
        Let_def i1_def i2_def i3_def)
  ultimately show ?thesis by blast
qed

lemma committed_outbox_length: "length (outbox (committed e req d)) = length (outbox d) + 3"
  using committed_outbox [of e req d] by auto

lemma new_orders_committed:
  "new_orders d (committed e req d) =
     [\<lparr>o_id = next_rowid (map o_id (orders d)) (orders_seq d), o_order_id = OrderID req,
       o_user_name = UserName req, o_user_email = UserEmail req, o_device_id = DeviceID req,
       o_status = ''FINISHED'', o_created_at = db_clock e 0, o_updated_at = db_clock e 1\<rparr>]"
proof -
  have "filter (\<lambda>r. o_id r \<notin> set (map o_id (orders d)))
          (map (finish_row (db_clock e 1) (OrderID req)) (orders d)) = []"
    by (auto simp: filter_empty_conv)
  then show ?thesis
    using next_rowid_fresh [of "map o_id (orders d)" "orders_seq d"]
    by (simp add: new_orders_def committed_orders)
qed

lemma new_outbox_append:
  assumes "outbox d' = outbox d @ ms" and "\<forall>m \<in> set ms. m_id m \<notin> set (map m_id (outbox d))"
  shows "new_outbox d d' = ms"
proof -
  have "filter (\<lambda>m. m_id m \<notin> set (map m_id (outbox d))) (outbox d) = []"
    by (auto simp: filter_empty_conv)
  moreover have "filter (\<lambda>m. m_id m \<notin> set (map m_id (outbox d))) ms = ms"
    using assms(2) by (auto simp: filter_id_conv)
  ultimately show ?thesis using assms(1) by (simp add: new_outbox_def)
qed

lemma new_outbox_committed:
  "\<exists>em nt an.
     new_outbox d (committed e req d) = [em, nt, an] \<and>
     outbox (committed e req d) = outbox d @ [em, nt, an] \<and>
     m_type em = ''EMAIL'' \<and> m_type nt = ''NOTIFY'' \<and> m_type an = ''ANALYTIC'' \<and>
     m_status em = ''PENDING'' \<and> m_status nt = ''PENDING'' \<and> m_status an = ''PENDING'' \<and>
     m_finished_at em = None \<and> m_finished_at nt = None \<and> m_finished_at an = None \<and>
     m_data em = Marshalled (JObject (fmap_of_list (email_data req))) \<and>
     m_data nt = Marshalled (JObject (fmap_of_list (notify_data req))) \<and>
     m_data an = Marshalled (JObject (fmap_of_list (analytic_data e req))) \<and>
     distinct (map m_id [em, nt, an])"
proof -
  from committed_outbox [of e req d] obtain i1 i2 i3 where
    ob: "outbox (committed e req d) = outbox d @
       [\<lparr>m_id = i1, m_status = ''PENDING'', m_type = ''EMAIL'',
         m_data = Marshalled (JObject (fmap_of_list (email_data req))),
         m_created_at = db_clock e 2, m_finished_at = None\<rparr>,
        \<lparr>m_id = i2, m_status = ''PENDING'', m_type = ''NOTIFY'',
         m_data = Marshalled (JObject (fmap_of_list (notify_data req))),
         m_created_at = db_clock e 3, m_finished_at = None\<rparr>,
        \<lparr>m_id = i3, m_status = ''PENDING'', m_type = ''ANALYTIC'',
         m_data = Marshalled (JObject (fmap_of_list (analytic_data e req))),
         m_created_at = db_clock e 4, m_finished_at = None\<rparr>]"
    and lt: "i1 < i2" "i2 < i3" "\<forall>x \<in> set (map m_id (outbox d)). x < i1"
    by blast
  have fresh: "\<forall>m \<in> set [\<lparr>m_id = i1, m_status = ''PENDING'', m_type = ''EMAIL'',
         m_data = Marshalled (JObject (fmap_of_list (email_data req))),
         m_created_at = db_clock e 2, m_finished_at = None\<rparr>,
        \<lparr>m_id = i2, m_status = ''PENDING'', m_type = ''NOTIFY'',
         m_data = Marshalled (JObject (fmap_of_list (notify_data req))),
         m_created_at = db_clock e 3, m_finished_at = None\<rparr>,
        \<lparr>m_id = i3, m_status = ''PENDING'', m_type = ''ANALYTIC'',
         m_data = Marshalled (JObject (fmap_of_list (analytic_data e req))),
         m_created_at = db_clock e 4, m_finished_at = None\<rparr>].
       m_id m \<notin> set (map m_id (outbox d))"
    using lt by fastforce
  show ?thesis
    apply (simp only: new_outbox_append [OF ob fresh] ob)
    using lt apply simp
    done
qed

section \<open>Claims about \<open>handleFinishOrder\<close>\<close>

text \<open>
  C1. Whenever the handler answers 200 for a bound request, the committed store holds exactly
  one order row that the store did not hold before, it carries the fields of the request and
  the status \<open>FINISHED\<close>; and exactly three outbox rows that it did not hold before, appended
  after the old ones, of types \<open>EMAIL\<close>, \<open>NOTIFY\<close> and \<open>ANALYTIC\<close> in this order, all
  \<open>PENDING\<close> with \<open>finished_at\<close> null and with three different ids.
\<close>

theorem commit_creates_order_and_three_messages:
  assumes "fst (fst (handleFinishOrder e (Some req) s)) = 200"
  shows "\<exists>row em nt an.
      new_orders (db s) (db (snd (handleFinishOrder e (Some req) s))) = [row] \<and>
      length (orders (db (snd (handleFinishOrder e (Some req) s)))) = Suc (length (orders (db s))) \<and>
      o_order_id row = OrderID req \<and> o_user_name row = UserName req \<and>
      o_user_email row = UserEmail req \<and> o_device_id row = DeviceID req \<and>
      o_status row = ''FINISHED'' \<and>
      new_outbox (db s) (db (snd (handleFinishOrder e (Some req) s))) = [em, nt, an] \<and>
      outbox (db (snd (handleFinishOrder e (Some req) s))) = outbox (db s) @ [em, nt, an] \<and>
      m_type em = ''EMAIL'' \<and> m_type nt = ''NOTIFY'' \<and> m_type an = ''ANALYTIC'' \<and>
      m_status em = ''PENDING'' \<and> m_status nt = ''PENDING'' \<and> m_status an = ''PENDING'' \<and>
      m_finished_at em = None \<and> m_finished_at nt = None \<and> m_finished_at an = None \<and>
      distinct (map m_id [em, nt, an])"
proof -
  from assms have nf: "no_fault e" by (simp add: handle_200_iff)
  have s': "db (snd (handleFinishOrder e (Some req) s)) = committed e req (db s)"
    by (simp add: handle_ok [OF nf])
  from new_outbox_committed [of "db s" e req] obtain em nt an where
    "new_outbox (db s) (committed e req (db s)) = [em, nt, an]"
    "outbox (committed e req (db s)) = outbox (db s) @ [em, nt, an]"
    "m_type em = ''EMAIL''" "m_type nt = ''NOTIFY''" "m_type an = ''ANALYTIC''"
    "m_status em = ''PENDING''" "m_status nt = ''PENDING''" "m_status an = ''PENDING''"
    "m_finished_at em = None" "m_finished_at nt = None" "m_finished_at an = None"
    "distinct (map m_id [em, nt, an])"
    by blast
  then show ?thesis
    unfolding s' by (simp only: new_orders_committed) (simp add: committed_orders)
qed

theorem commit_creates_order_and_three_messages_witness:
  "fst (fst (handleFinishOrder env_ok (Some req_O1) sys0)) = 200 \<and>
   (\<exists>row em nt an.
      new_orders (db sys0) (db (snd (handleFinishOrder env_ok (Some req_O1) sys0))) = [row] \<and>
      o_order_id row = ''O1'' \<and> o_status row = ''FINISHED'' \<and>
      new_outbox (db sys0) (db (snd (handleFinishOrder env_ok (Some req_O1) sys0))) = [em, nt, an] \<and>
      m_type em = ''EMAIL'' \<and> m_type nt = ''NOTIFY'' \<and> m_type an = ''ANALYTIC'' \<and>
      m_status em = ''PENDING'' \<and> m_status nt = ''PENDING'' \<and> m_status an = ''PENDING'')"
proof -
  have h: "fst (fst (handleFinishOrder env_ok (Some req_O1) sys0)) = 200"
    by (simp add: handle_ok [OF no_fault_env_ok])
  from commit_creates_order_and_three_messages [OF h] obtain row em nt an where
    "new_orders (db sys0) (db (snd (handleFinishOrder env_ok (Some req_O1) sys0))) = [row]"
    "o_order_id row = OrderID req_O1" "o_status row = ''FINISHED''"
    "new_outbox (db sys0) (db (snd (handleFinishOrder env_ok (Some req_O1) sys0))) = [em, nt, an]"
    "m_type em = ''EMAIL''" "m_type nt = ''NOTIFY''" "m_type an = ''ANALYTIC''"
    "m_status em = ''PENDING''" "m_status nt = ''PENDING''" "m_status an = ''PENDING''"
    by blast
  then show ?thesis using h by (simp add: req_O1_def)
qed

text \<open>
  C2. If the random failure is drawn, or \<open>db.Begin\<close>, one of the five \<open>tx.Exec\<close> (the order
  insert, the status update, the three outbox inserts) or \<open>tx.Commit\<close> returns an error, the
  handler answers 500 with an error body and the state is exactly what it was: no order row
  and no outbox row has been added.
\<close>

theorem abort_leaves_no_state:
  assumes "rand_Float32 e < 1 / 10 \<or> begin_err e \<or> exec_err e 0 \<or> exec_err e 1 \<or>
           exec_err e 2 \<or> exec_err e 3 \<or> exec_err e 4 \<or> commit_err e"
  shows "(\<exists>msg. handleFinishOrder e (Some req) s = ((500, ''error'', msg), s)) \<and>
         new_orders (db s) (db (snd (handleFinishOrder e (Some req) s))) = [] \<and>
         new_outbox (db s) (db (snd (handleFinishOrder e (Some req) s))) = []"
proof -
  from assms have "\<not> no_fault e" by (auto simp: no_fault_def)
  from handle_fault [OF this, of req s] obtain msg where
    h: "handleFinishOrder e (Some req) s = ((500, ''error'', msg), s)" by blast
  have "new_orders (db s) (db s) = []" by (auto simp: new_orders_def filter_empty_conv)
  moreover have "new_outbox (db s) (db s) = []" by (auto simp: new_outbox_def filter_empty_conv)
  ultimately show ?thesis using h by simp
qed

theorem abort_leaves_no_state_witness:
  "exec_err (env_ok\<lparr>exec_err := (\<lambda>n. n = 3)\<rparr>) 3 \<and>
   (\<exists>msg. handleFinishOrder (env_ok\<lparr>exec_err := (\<lambda>n. n = 3)\<rparr>) (Some req_O1) sys0 =
      ((500, ''error'', msg), sys0)) \<and>
   new_orders (db sys0)
     (db (snd (handleFinishOrder (env_ok\<lparr>exec_err := (\<lambda>n. n = 3)\<rparr>) (Some req_O1) sys0))) = [] \<and>
   new_outbox (db sys0)
     (db (snd (handleFinishOrder (env_ok\<lparr>exec_err := (\<lambda>n. n = 3)\<rparr>) (Some req_O1) sys0))) = []"
proof -
  have h: "exec_err (env_ok\<lparr>exec_err := (\<lambda>n. n = 3)\<rparr>) 3" by simp
  then have "rand_Float32 (env_ok\<lparr>exec_err := (\<lambda>n. n = 3)\<rparr>) < 1 / 10 \<or>
      begin_err (env_ok\<lparr>exec_err := (\<lambda>n. n = 3)\<rparr>) \<or>
      exec_err (env_ok\<lparr>exec_err := (\<lambda>n. n = 3)\<rparr>) 0 \<or>
      exec_err (env_ok\<lparr>exec_err := (\<lambda>n. n = 3)\<rparr>) 1 \<or>
      exec_err (env_ok\<lparr>exec_err := (\<lambda>n. n = 3)\<rparr>) 2 \<or>
      exec_err (env_ok\<lparr>exec_err := (\<lambda>n. n = 3)\<rparr>) 3 \<or>
      exec_err (env_ok\<lparr>exec_err := (\<lambda>n. n = 3)\<rparr>) 4 \<or>
      commit_err (env_ok\<lparr>exec_err := (\<lambda>n. n = 3)\<rparr>)"
    by blast
  from abort_leaves_no_state [OF this, of req_O1 sys0] h show ?thesis by blast
qed

text \<open>
  C3, as the claim states it, fails: the handler checks none of the four fields. A request
  whose four fields are all empty is processed like any other; with no fault it is answered 200
  and leaves one order row and three outbox rows.
\<close>

theorem empty_fields_accepted:
  "OrderID req_empty = [] \<and> UserName req_empty = [] \<and> UserEmail req_empty = [] \<and>
   DeviceID req_empty = [] \<and>
   fst (fst (handleFinishOrder env_ok (Some req_empty) sys0)) = 200 \<and>
   length (orders (db (snd (handleFinishOrder env_ok (Some req_empty) sys0)))) = 1 \<and>
   length (outbox (db (snd (handleFinishOrder env_ok (Some req_empty) sys0)))) = 3"
  by (simp add: handle_ok [OF no_fault_env_ok] committed_orders committed_outbox_length
      sys0_def initDB_def req_empty_def)

text \<open>
  C3, amended. A request that \<open>c.Bind\<close> rejects is answered 400 \<open>invalid request\<close> and the
  state is untouched. For a request that binds, the response does not depend on the four
  fields at all, empty or not.
\<close>

theorem bind_error_persists_nothing:
  "handleFinishOrder e None s = ((400, ''error'', ''invalid request''), s) \<and>
   fst (handleFinishOrder e (Some req) s) = fst (handleFinishOrder e (Some req') s)"
proof (cases "no_fault e")
  case True
  then show ?thesis by (simp add: handle_ok) (simp add: handleFinishOrder_def)
next
  case False
  then have "fst (handleFinishOrder e (Some req) s) = fst (handleFinishOrder e (Some req') s)"
    by (auto simp add: handleFinishOrder_def no_fault_def createOutboxMessage_def)
  then show ?thesis by (simp add: handleFinishOrder_def)
qed

lemma no_fault_env_later: "no_fault env_later"
  by (simp add: no_fault_def env_later_def env_ok_def)

lemma new_outbox_committed_data:
  "map m_data (new_outbox d (committed e req d)) =
     [Marshalled (JObject (fmap_of_list (email_data req))),
      Marshalled (JObject (fmap_of_list (notify_data req))),
      Marshalled (JObject (fmap_of_list (analytic_data e req)))]"
  using new_outbox_committed [of d e req] by auto

lemma analytic_data_timestamp:
  "fmlookup (fmap_of_list (analytic_data e req)) ''timestamp'' = Some (JString (time_Now e))"
  by (simp add: analytic_data_def)

text \<open>
  C7, as the claim states it, fails for the \<open>ANALYTIC\<close> payload: its \<open>timestamp\<close> field is
  \<open>time.Now()\<close>. Two committing calls on the same request and the same state, made at
  different times, append different payloads.
\<close>

theorem analytic_payload_depends_on_clock:
  "fst (fst (handleFinishOrder env_ok (Some req_O1) sys0)) = 200 \<and>
   fst (fst (handleFinishOrder env_later (Some req_O1) sys0)) = 200 \<and>
   map m_data (new_outbox (db sys0) (db (snd (handleFinishOrder env_ok (Some req_O1) sys0)))) \<noteq>
   map m_data (new_outbox (db sys0) (db (snd (handleFinishOrder env_later (Some req_O1) sys0))))"
proof -
  have "fmap_of_list (analytic_data env_ok req_O1) \<noteq> fmap_of_list (analytic_data env_later req_O1)"
  proof
    assume "fmap_of_list (analytic_data env_ok req_O1) = fmap_of_list (analytic_data env_later req_O1)"
    then have "fmlookup (fmap_of_list (analytic_data env_ok req_O1)) ''timestamp'' =
        fmlookup (fmap_of_list (analytic_data env_later req_O1)) ''timestamp''"
      by simp
    then show False
      by (simp add: analytic_data_timestamp env_ok_def env_later_def)
  qed
  then show ?thesis
    by (simp add: handle_ok [OF no_fault_env_ok] handle_ok [OF no_fault_env_later]
        new_outbox_committed_data)
qed

text \<open>
  C7, amended. The payloads of the three rows that a committing call appends are the
  \<open>EMAIL\<close> document (recipients, subject, body), the \<open>NOTIFY\<close> document (deviceId, message) and
  the \<open>ANALYTIC\<close> document (event, orderId, userEmail, timestamp) written out below. The first
  two are functions of the request alone: two committing calls on the same request append the
  same \<open>EMAIL\<close> and \<open>NOTIFY\<close> payloads, whatever the state and the environment. The third is
  a function of the request and of the reading of \<open>time.Now()\<close>: the two calls append the same
  three payloads when their readings are equal.
\<close>

theorem payloads_function_of_request_and_clock:
  assumes "fst (fst (handleFinishOrder e1 (Some req) s1)) = 200"
    and "fst (fst (handleFinishOrder e2 (Some req) s2)) = 200"
  shows "map m_data (new_outbox (db s1) (db (snd (handleFinishOrder e1 (Some req) s1)))) =
      [Marshalled (JObject (fmap_of_list
         [(''recipients'', JArray [JString (UserEmail req)]),
          (''subject'', JString ''Order Completed''),
          (''body'', JString (''Your order '' @ OrderID req @ '' has been completed successfully!''))])),
       Marshalled (JObject (fmap_of_list
         [(''deviceId'', JArray [JString (DeviceID req)]),
          (''message'', JString (''Order '' @ OrderID req @ '' completed successfully!''))])),
       Marshalled (JObject (fmap_of_list
         [(''event'', JString ''order_completed''),
          (''orderId'', JString (OrderID req)),
          (''userEmail'', JString (UserEmail req)),
          (''timestamp'', JString (time_Now e1))]))] \<and>
    take 2 (map m_data (new_outbox (db s1) (db (snd (handleFinishOrder e1 (Some req) s1))))) =
    take 2 (map m_data (new_outbox (db s2) (db (snd (handleFinishOrder e2 (Some req) s2))))) \<and>
    (time_Now e1 = time_Now e2 \<longrightarrow>
       map m_data (new_outbox (db s1) (db (snd (handleFinishOrder e1 (Some req) s1)))) =
       map m_data (new_outbox (db s2) (db (snd (handleFinishOrder e2 (Some req) s2)))))"
proof -
  from assms have nf: "no_fault e1" "no_fault e2" by (simp_all add: handle_200_iff)
  show ?thesis
    by (simp add: handle_ok [OF nf(1)] handle_ok [OF nf(2)] new_outbox_committed_data
        email_data_def notify_data_def analytic_data_def)
qed

theorem payloads_function_of_request_and_clock_witness:
  "fst (fst (handleFinishOrder env_ok (Some req_O1) sys0)) = 200 \<and>
   fst (fst (handleFinishOrder env_later (Some req_O1) sys0)) = 200 \<and>
   take 2 (map m_data (new_outbox (db sys0) (db (snd (handleFinishOrder env_ok (Some req_O1) sys0))))) =
   take 2 (map m_data (new_outbox (db sys0) (db (snd (handleFinishOrder env_later (Some req_O1) sys0))))) \<and>
   map m_data (new_outbox (db sys0) (db (snd (handleFinishOrder env_ok (Some req_O1) sys0)))) =
      [Marshalled (JObject (fmap_of_list
         [(''recipients'', JArray [JString ''a@x.com'']),
          (''subject'', JString ''Order Completed''),
          (''body'', JString ''Your order O1 has been completed successfully!'')])),
       Marshalled (JObject (fmap_of_list
         [(''deviceId'', JArray [JString ''D1'']),
          (''message'', JString ''Order O1 completed successfully!'')])),
       Marshalled (JObject (fmap_of_list
         [(''event'', JString ''order_completed''),
          (''orderId'', JString ''O1''),
          (''userEmail'', JString ''a@x.com''),
          (''timestamp'', JString ''2025-01-01T00:00:00Z'')]))]"
proof -
  have h1: "fst (fst (handleFinishOrder env_ok (Some req_O1) sys0)) = 200"
    by (simp add: handle_ok [OF no_fault_env_ok])
  have h2: "fst (fst (handleFinishOrder env_later (Some req_O1) sys0)) = 200"
    by (simp add: handle_ok [OF no_fault_env_later])
  have t: "time_Now env_ok = ''2025-01-01T00:00:00Z''" by (simp add: env_ok_def)
  have r: "OrderID req_O1 = ''O1''" "UserEmail req_O1 = ''a@x.com''" "DeviceID req_O1 = ''D1''"
    by (simp_all add: req_O1_def)
  note th = payloads_function_of_request_and_clock [OF h1 h2]
  have c: "map m_data (new_outbox (db sys0) (db (snd (handleFinishOrder env_ok (Some req_O1) sys0)))) =
      [Marshalled (JObject (fmap_of_list
         [(''recipients'', JArray [JString ''a@x.com'']),
          (''subject'', JString ''Order Completed''),
          (''body'', JString ''Your order O1 has been completed successfully!'')])),
       Marshalled (JObject (fmap_of_list
         [(''deviceId'', JArray [JString ''D1'']),
          (''message'', JString ''Order O1 completed successfully!'')])),
       Marshalled (JObject (fmap_of_list
         [(''event'', JString ''order_completed''),
          (''orderId'', JString ''O1''),
          (''userEmail'', JString ''a@x.com''),
          (''timestamp'', JString ''2025-01-01T00:00:00Z'')]))]"
    using conjunct1 [OF th] by (simp add: t r)
  from th have d:
    "take 2 (map m_data (new_outbox (db sys0) (db (snd (handleFinishOrder env_ok (Some req_O1) sys0))))) =
     take 2 (map m_data (new_outbox (db sys0) (db (snd (handleFinishOrder env_later (Some req_O1) sys0)))))"
    by blast
  from h1 h2 c d show ?thesis by blast
qed

lemma handle_net: "net (snd (handleFinishOrder e bound s)) = net s"
proof (cases bound)
  case None
  then show ?thesis by (simp add: handleFinishOrder_def)
next
  case (Some req)
  show ?thesis
  proof (cases "no_fault e")
    case True
    then show ?thesis using Some by (simp add: handle_ok)
  next
    case False
    from handle_fault [OF False, of req s] Some show ?thesis by auto
  qed
qed

lemma handle_response_state_free:
  "fst (handleFinishOrder e bound s) = fst (handleFinishOrder e bound t)"
proof (cases bound)
  case None
  then show ?thesis by (simp add: handleFinishOrder_def)
next
  case (Some req)
  show ?thesis
  proof (cases "no_fault e")
    case True
    then show ?thesis using Some by (simp add: handle_ok)
  next
    case False
    then show ?thesis using Some
      by (auto simp add: handleFinishOrder_def no_fault_def createOutboxMessage_def)
  qed
qed

text \<open>
  C8. A call of the handler sends nothing to any collaborator: the requests that have gone out
  are what they were. Its response is the same in every state, so it says nothing about
  deliveries. Any response other than 200 leaves the state as it was; a 200 leaves the database
  with exactly the five statements applied in order: the order insert, the status update and
  the three outbox inserts.
\<close>

theorem only_local_writes:
  "net (snd (handleFinishOrder e bound s)) = net s \<and>
   fst (handleFinishOrder e bound s) = fst (handleFinishOrder e bound t) \<and>
   (fst (fst (handleFinishOrder e bound s)) \<noteq> 200 \<longrightarrow> snd (handleFinishOrder e bound s) = s) \<and>
   (fst (fst (handleFinishOrder e bound s)) = 200 \<longrightarrow>
      (\<exists>req. bound = Some req \<and>
         db (snd (handleFinishOrder e bound s)) =
           insert_outbox (db_clock e 4) ''PENDING'' ''ANALYTIC''
             (Marshalled (JObject (fmap_of_list (analytic_data e req))))
             (insert_outbox (db_clock e 3) ''PENDING'' ''NOTIFY''
                (Marshalled (JObject (fmap_of_list (notify_data req))))
                (insert_outbox (db_clock e 2) ''PENDING'' ''EMAIL''
                   (Marshalled (JObject (fmap_of_list (email_data req))))
                   (update_orders_finished (db_clock e 1) (OrderID req)
                      (insert_order (db_clock e 0) (OrderID req) (UserName req) (UserEmail req)
                         (DeviceID req) ''PENDING'' (db s)))))))"
proof (intro conjI)
  show "net (snd (handleFinishOrder e bound s)) = net s" by (rule handle_net)
  show "fst (handleFinishOrder e bound s) = fst (handleFinishOrder e bound t)"
    by (rule handle_response_state_free)
  show "fst (fst (handleFinishOrder e bound s)) \<noteq> 200 \<longrightarrow> snd (handleFinishOrder e bound s) = s"
  proof (cases bound)
    case None
    then show ?thesis by (simp add: handleFinishOrder_def)
  next
    case (Some req)
    show ?thesis
    proof (cases "no_fault e")
      case True
      then show ?thesis using Some by (simp add: handle_ok)
    next
      case False
      from handle_fault [OF False, of req s] Some show ?thesis by auto
    qed
  qed
  show "fst (fst (handleFinishOrder e bound s)) = 200 \<longrightarrow>
      (\<exists>req. bound = Some req \<and>
         db (snd (handleFinishOrder e bound s)) =
           insert_outbox (db_clock e 4) ''PENDING'' ''ANALYTIC''
             (Marshalled (JObject (fmap_of_list (analytic_data e req))))
             (insert_outbox (db_clock e 3) ''PENDING'' ''NOTIFY''
                (Marshalled (JObject (fmap_of_list (notify_data req))))
                (insert_outbox (db_clock e 2) ''PENDING'' ''EMAIL''
                   (Marshalled (JObject (fmap_of_list (email_data req))))
                   (update_orders_finished (db_clock e 1) (OrderID req)
                      (insert_order (db_clock e 0) (OrderID req) (UserName req) (UserEmail req)
                         (DeviceID req) ''PENDING'' (db s))))))"
  proof (cases bound)
    case None
    then show ?thesis by (simp add: handleFinishOrder_def)
  next
    case (Some req)
    show ?thesis
    proof (cases "no_fault e")
      case True
      then show ?thesis using Some by (simp add: handle_ok committed_def)
    next
      case False
      then show ?thesis using Some by (simp add: handle_200_iff)
    qed
  qed
qed

theorem only_local_writes_witness:
  "fst (fst (handleFinishOrder env_ok (Some req_O1) sys0)) = 200 \<and>
   fst (fst (handleFinishOrder (env_ok\<lparr>commit_err := True\<rparr>) (Some req_O1) sys0)) \<noteq> 200 \<and>
   snd (handleFinishOrder (env_ok\<lparr>commit_err := True\<rparr>) (Some req_O1) sys0) = sys0 \<and>
   net (snd (handleFinishOrder env_ok (Some req_O1) sys0)) = [] \<and>
   length (orders (db (snd (handleFinishOrder env_ok (Some req_O1) sys0)))) = 1 \<and>
   length (outbox (db (snd (handleFinishOrder env_ok (Some req_O1) sys0)))) = 3"
proof -
  have h: "fst (fst (handleFinishOrder env_ok (Some req_O1) sys0)) = 200"
    by (simp add: handle_ok [OF no_fault_env_ok])
  have "\<not> no_fault (env_ok\<lparr>commit_err := True\<rparr>)" by (simp add: no_fault_def)
  then have g: "fst (fst (handleFinishOrder (env_ok\<lparr>commit_err := True\<rparr>) (Some req_O1) sys0)) \<noteq> 200"
    by (simp add: handle_200_iff)
  note a = only_local_writes [of env_ok "Some req_O1" sys0 sys0]
  note b = only_local_writes [of "env_ok\<lparr>commit_err := True\<rparr>" "Some req_O1" sys0 sys0]
  from a have n: "net (snd (handleFinishOrder env_ok (Some req_O1) sys0)) = net sys0" by blast
  from b g have u: "snd (handleFinishOrder (env_ok\<lparr>commit_err := True\<rparr>) (Some req_O1) sys0) = sys0"
    by blast
  from a h obtain req where "Some req_O1 = Some req" and
    d: "db (snd (handleFinishOrder env_ok (Some req_O1) sys0)) =
           insert_outbox (db_clock env_ok 4) ''PENDING'' ''ANALYTIC''
             (Marshalled (JObject (fmap_of_list (analytic_data env_ok req))))
             (insert_outbox (db_clock env_ok 3) ''PENDING'' ''NOTIFY''
                (Marshalled (JObject (fmap_of_list (notify_data req))))
                (insert_outbox (db_clock env_ok 2) ''PENDING'' ''EMAIL''
                   (Marshalled (JObject (fmap_of_list (email_data req))))
                   (update_orders_finished (db_clock env_ok 1) (OrderID req)
                      (insert_order (db_clock env_ok 0) (OrderID req) (UserName req) (UserEmail req)
                         (DeviceID req) ''PENDING'' (db sys0)))))"
    by blast
  have l: "length (orders (db (snd (handleFinishOrder env_ok (Some req_O1) sys0)))) = 1"
    "length (outbox (db (snd (handleFinishOrder env_ok (Some req_O1) sys0)))) = 3"
    unfolding d
    by (simp_all add: insert_outbox_def update_orders_finished_def insert_order_def Let_def
        sys0_def initDB_def)
  from h g u n l show ?thesis by (simp add: sys0_def)
qed

lemma filter_finish_row:
  "filter (\<lambda>r. o_order_id r = oid) (map (finish_row now oid) rs) =
   map (\<lambda>r. r\<lparr>o_status := ''FINISHED'', o_updated_at := now\<rparr>) (filter (\<lambda>r. o_order_id r = oid) rs)"
  by (induction rs) (simp_all add: finish_row_def)

text \<open>
  C10. Whatever the store holds, a call with no fault is answered 200: the order id is not
  checked against the rows already there. The call adds one order row with the request's order
  id, so the number of rows with that order id grows by one, and three outbox rows; every row
  that was there with that order id gets status \<open>FINISHED\<close> and the \<open>updated_at\<close> of the
  update statement, and every other row is unchanged.
\<close>

theorem duplicate_order_id_accepted:
  assumes "no_fault e"
  shows "fst (fst (handleFinishOrder e (Some req) s)) = 200 \<and>
    length (orders (db (snd (handleFinishOrder e (Some req) s)))) = Suc (length (orders (db s))) \<and>
    o_order_id (last (orders (db (snd (handleFinishOrder e (Some req) s))))) = OrderID req \<and>
    length (filter (\<lambda>r. o_order_id r = OrderID req) (orders (db (snd (handleFinishOrder e (Some req) s))))) =
      Suc (length (filter (\<lambda>r. o_order_id r = OrderID req) (orders (db s)))) \<and>
    length (outbox (db (snd (handleFinishOrder e (Some req) s)))) = length (outbox (db s)) + 3 \<and>
    (\<forall>i < length (orders (db s)).
       orders (db (snd (handleFinishOrder e (Some req) s))) ! i =
         (if o_order_id (orders (db s) ! i) = OrderID req
          then (orders (db s) ! i)\<lparr>o_status := ''FINISHED'', o_updated_at := db_clock e 1\<rparr>
          else orders (db s) ! i))"
proof -
  have s': "db (snd (handleFinishOrder e (Some req) s)) = committed e req (db s)"
    by (simp add: handle_ok [OF assms])
  have nth: "\<forall>i < length (orders (db s)).
       orders (committed e req (db s)) ! i =
         (if o_order_id (orders (db s) ! i) = OrderID req
          then (orders (db s) ! i)\<lparr>o_status := ''FINISHED'', o_updated_at := db_clock e 1\<rparr>
          else orders (db s) ! i)"
    by (simp add: committed_orders nth_append finish_row_def)
  have cnt: "length (filter (\<lambda>r. o_order_id r = OrderID req) (orders (committed e req (db s)))) =
      Suc (length (filter (\<lambda>r. o_order_id r = OrderID req) (orders (db s))))"
    by (simp add: committed_orders filter_finish_row)
  show ?thesis
    unfolding s' using nth cnt
    by (simp add: handle_ok [OF assms] committed_orders committed_outbox_length)
qed

lemma no_fault_env_second: "no_fault env_second"
  by (simp add: no_fault_def env_second_def env_ok_def)

lemma orders_sys1:
  "orders (db sys1) =
     [\<lparr>o_id = 1, o_order_id = ''O1'', o_user_name = ''Alice'', o_user_email = ''a@x.com'',
       o_device_id = ''D1'', o_status = ''FINISHED'', o_created_at = 100, o_updated_at = 101\<rparr>]"
proof -
  have "orders (db sys1) = orders (committed env_ok req_O1 (db sys0))"
    by (simp add: sys1_def handle_ok [OF no_fault_env_ok])
  then show ?thesis
    by (simp add: committed_orders sys0_def initDB_def next_rowid_def req_O1_def env_ok_def)
qed

theorem duplicate_order_id_accepted_witness:
  "no_fault env_second \<and>
   map o_order_id (orders (db sys1)) = [''O1''] \<and>
   map o_updated_at (orders (db sys1)) = [101] \<and>
   fst (fst (handleFinishOrder env_second (Some req_O1) sys1)) = 200 \<and>
   length (filter (\<lambda>r. o_order_id r = ''O1'') (orders (db (snd (handleFinishOrder env_second (Some req_O1) sys1))))) = 2 \<and>
   o_updated_at (orders (db (snd (handleFinishOrder env_second (Some req_O1) sys1))) ! 0) = 201 \<and>
   length (outbox (db (snd (handleFinishOrder env_second (Some req_O1) sys1)))) = length (outbox (db sys1)) + 3"
proof -
  note th = duplicate_order_id_accepted [OF no_fault_env_second, of req_O1 sys1]
  have r: "OrderID req_O1 = ''O1''" by (simp add: req_O1_def)
  have c: "db_clock env_second (Suc 0) = 201" by (simp add: env_second_def)
  from th have a: "fst (fst (handleFinishOrder env_second (Some req_O1) sys1)) = 200" by blast
  from th have b: "length (filter (\<lambda>r. o_order_id r = ''O1'')
      (orders (db (snd (handleFinishOrder env_second (Some req_O1) sys1))))) = 2"
    unfolding r by (simp add: orders_sys1)
  from th have "orders (db (snd (handleFinishOrder env_second (Some req_O1) sys1))) ! 0 =
         (if o_order_id (orders (db sys1) ! 0) = OrderID req_O1
          then (orders (db sys1) ! 0)\<lparr>o_status := ''FINISHED'', o_updated_at := db_clock env_second 1\<rparr>
          else orders (db sys1) ! 0)"
    by (simp add: orders_sys1)
  then have d: "o_updated_at (orders (db (snd (handleFinishOrder env_second (Some req_O1) sys1))) ! 0) = 201"
    by (simp add: orders_sys1 r c)
  from th have f: "length (outbox (db (snd (handleFinishOrder env_second (Some req_O1) sys1)))) =
      length (outbox (db sys1)) + 3" by blast
  from no_fault_env_second a b d f show ?thesis by (simp add: orders_sys1)
qed

section \<open>The worker in closed form\<close>


lemma handler_cases:
  "processEmailMessage e message =
     (case Unmarshal (m_data message) of
        None \<Rightarrow> (Some UnmarshalFailed, [])
      | Some g \<Rightarrow>
          (case http_Post e (m_id message) ''http://localhost:8081/send-email'' (Marshal g) of
             TransportError \<Rightarrow> Some CallFailed
           | Response code \<Rightarrow> if code = 200 then None else Some (BadStatus code),
           [\<lparr>url = ''http://localhost:8081/send-email'', body = Marshal g\<rparr>]))"
  "processNotificationMessage e message =
     (case Unmarshal (m_data message) of
        None \<Rightarrow> (Some UnmarshalFailed, [])
      | Some g \<Rightarrow>
          (case http_Post e (m_id message) ''http://localhost:8082/send-notification'' (Marshal g) of
             TransportError \<Rightarrow> Some CallFailed
           | Response code \<Rightarrow> if code = 200 then None else Some (BadStatus code),
           [\<lparr>url = ''http://localhost:8082/send-notification'', body = Marshal g\<rparr>]))"
  "processAnalyticsMessage e message =
     (case Unmarshal (m_data message) of
        None \<Rightarrow> (Some UnmarshalFailed, [])
      | Some g \<Rightarrow>
          (case http_Post e (m_id message) ''http://localhost:9000/events''
                  (JObject (fmap_of_list [(''payload'', Marshal g)])) of
             TransportError \<Rightarrow> Some CallFailed
           | Response code \<Rightarrow> if code = 200 then None else Some (BadStatus code),
           [\<lparr>url = ''http://localhost:9000/events'',
             body = JObject (fmap_of_list [(''payload'', Marshal g)])\<rparr>]))"
  by (simp_all add: processEmailMessage_def processNotificationMessage_def
      processAnalyticsMessage_def Marshal_def Let_def
      split: option.splits http_result.splits)

lemma scan_id [simp]: "m_id (scan row) = m_id row"
  by (simp add: scan_def)

lemma relay_step_eq:
  "relay_step e row s =
     s\<lparr>net := net s @ dispatch_of e row,
       db := (if delivered e row
              then update_outbox_finished (mark_clock e (m_id row)) (m_id row) (db s)
              else db s)\<rparr>"
  by (cases "processMessage e (scan row)")
     (auto simp: relay_step_def dispatch_of_def delivered_def Let_def split: option.splits)

lemma relay_step_outbox:
  "outbox (db (relay_step e row s)) =
     map (\<lambda>m. if m_id m = m_id row \<and> delivered e row then marked e m else m) (outbox (db s))"
  by (auto simp: relay_step_eq update_outbox_finished_def mark_row_def marked_def)

lemma relay_step_net: "net (relay_step e row s) = net s @ dispatch_of e row"
  by (simp add: relay_step_eq)

lemma marked_id [simp]: "m_id (marked e m) = m_id m"
  by (simp add: marked_def)

lemma marked_idem [simp]: "marked e (marked e m) = marked e m"
  by (simp add: marked_def)

lemma relay_loop_outbox:
  "outbox (db (relay_loop e rows s)) =
     map (\<lambda>m. if \<exists>r \<in> set rows. m_id r = m_id m \<and> delivered e r then marked e m else m)
       (outbox (db s))"
proof (induction rows arbitrary: s)
  case Nil
  then show ?case by simp
next
  case (Cons row rows)
  show ?case
    by (simp add: Cons.IH relay_step_outbox) auto
qed

lemma relay_loop_net: "net (relay_loop e rows s) = net s @ concat (map (dispatch_of e) rows)"
  by (induction rows arbitrary: s) (simp_all add: relay_step_net)

lemma tick_outbox:
  "outbox (db (processOutboxMessages e s)) =
     map (\<lambda>m. if \<not> count_err e \<and> \<not> query_err e \<and>
                 (\<exists>r \<in> set (select_pending (db s)). m_id r = m_id m \<and> delivered e r)
               then marked e m else m)
       (outbox (db s))"
proof (cases "count_err e \<or> query_err e \<or> select_pending (db s) = []")
  case True
  then have "processOutboxMessages e s = s"
    by (auto simp: processOutboxMessages_def Let_def)
  moreover from True have "(\<lambda>m. if \<not> count_err e \<and> \<not> query_err e \<and>
                 (\<exists>r \<in> set (select_pending (db s)). m_id r = m_id m \<and> delivered e r)
               then marked e m else m) = (\<lambda>m. m)"
    by auto
  ultimately show ?thesis by simp
next
  case False
  then have "processOutboxMessages e s = relay_loop e (select_pending (db s)) s"
    by (simp add: processOutboxMessages_def Let_def)
  with False show ?thesis by (simp add: relay_loop_outbox)
qed

lemma tick_net:
  "\<not> count_err e \<Longrightarrow> \<not> query_err e \<Longrightarrow>
   net (processOutboxMessages e s) = net s @ concat (map (dispatch_of e) (select_pending (db s)))"
  by (cases "select_pending (db s) = []")
     (simp_all add: processOutboxMessages_def Let_def relay_loop_net)

section \<open>Invariants of the outbox table\<close>

lemma outbox_sorted_init: "sorted_wrt (<) (map m_id (outbox initDB))"
  by (simp add: initDB_def)

lemma committed_outbox_sorted:
  assumes "sorted_wrt (<) (map m_id (outbox d))"
  shows "sorted_wrt (<) (map m_id (outbox (committed e req d)))"
proof -
  from committed_outbox [of e req d] obtain ms i1 i2 i3 where
    ob: "outbox (committed e req d) = outbox d @ ms"
    and ids: "map m_id ms = [i1, i2, i3]"
    and lt: "i1 < i2" "i2 < i3" "\<forall>x \<in> set (map m_id (outbox d)). x < i1"
    by fastforce
  from lt have "\<forall>x \<in> set (map m_id (outbox d)). x < i2 \<and> x < i3"
    by (meson less_trans)
  with lt assms show ?thesis
    by (simp add: ob ids sorted_wrt_append)
qed

lemma outbox_sorted_handle:
  assumes "sorted_wrt (<) (map m_id (outbox (db s)))"
  shows "sorted_wrt (<) (map m_id (outbox (db (snd (handleFinishOrder e bound s)))))"
proof (cases bound)
  case None
  with assms show ?thesis by (simp add: handleFinishOrder_def)
next
  case (Some req)
  show ?thesis
  proof (cases "no_fault e")
    case True
    from committed_outbox_sorted [OF assms] show ?thesis
      unfolding Some by (simp add: handle_ok [OF True])
  next
    case False
    from handle_fault [OF False, of req s] assms Some show ?thesis by auto
  qed
qed

lemma tick_ids: "map m_id (outbox (db (processOutboxMessages e s))) = map m_id (outbox (db s))"
  by (simp add: tick_outbox comp_def)

lemma outbox_sorted_tick:
  "sorted_wrt (<) (map m_id (outbox (db s))) \<Longrightarrow>
   sorted_wrt (<) (map m_id (outbox (db (processOutboxMessages e s))))"
  by (simp only: tick_ids)

lemma finished_at_inv_init:
  "\<forall>m \<in> set (outbox initDB). (m_finished_at m \<noteq> None) = (m_status m = ''FINISHED'')"
  by (simp add: initDB_def)

lemma finished_at_inv_handle:
  assumes "\<forall>m \<in> set (outbox (db s)). (m_finished_at m \<noteq> None) = (m_status m = ''FINISHED'')"
  shows "\<forall>m \<in> set (outbox (db (snd (handleFinishOrder e bound s)))).
           (m_finished_at m \<noteq> None) = (m_status m = ''FINISHED'')"
proof (cases bound)
  case None
  with assms show ?thesis by (simp add: handleFinishOrder_def)
next
  case (Some req)
  show ?thesis
  proof (cases "no_fault e")
    case True
    from new_outbox_committed [of "db s" e req] obtain em nt an where
      "outbox (committed e req (db s)) = outbox (db s) @ [em, nt, an]"
      "m_status em = ''PENDING''" "m_status nt = ''PENDING''" "m_status an = ''PENDING''"
      "m_finished_at em = None" "m_finished_at nt = None" "m_finished_at an = None"
      by blast
    with assms show ?thesis
      unfolding Some by (simp add: handle_ok [OF True])
  next
    case False
    from handle_fault [OF False, of req s] assms Some show ?thesis by auto
  qed
qed

section \<open>Claims about the worker\<close>

lemma outbox_sys_relay: "outbox (db sys_relay) = [msg1, msg2, msg3, msg4]"
  by (simp add: sys_relay_def)

lemma net_sys_relay: "net sys_relay = []"
  by (simp add: sys_relay_def)

lemma msg_ids: "m_id msg1 = 1" "m_id msg2 = 2" "m_id msg3 = 3" "m_id msg4 = 4"
  by (simp_all add: msg1_def msg2_def msg3_def msg4_def)

lemma msg_status:
  "m_status msg1 = ''PENDING''" "m_status msg2 = ''FINISHED''"
  "m_status msg3 = ''PENDING''" "m_status msg4 = ''PENDING''"
  by (simp_all add: msg1_def msg2_def msg3_def msg4_def)

lemma select_pending_sys_relay: "select_pending (db sys_relay) = [msg1, msg3, msg4]"
  by (simp add: select_pending_def outbox_sys_relay msg_status)

lemma process_msg1:
  "processMessage relay_flaky (scan msg1) =
     (Some (BadStatus 500),
      [\<lparr>url = ''http://localhost:8081/send-email'',
        body = JObject (fmap_of_list [(''subject'', JString ''Order Completed'')])\<rparr>])"
  by (simp add: processMessage_def processEmailMessage_def scan_def msg1_def relay_flaky_def
      Unmarshal_def Marshal_def)

lemma process_msg3:
  "processMessage relay_flaky (scan msg3) =
     (None,
      [\<lparr>url = ''http://localhost:9000/events'',
        body = JObject (fmap_of_list
          [(''payload'', JObject (fmap_of_list [(''event'', JString ''order_completed'')]))])\<rparr>])"
  by (simp add: processMessage_def processAnalyticsMessage_def scan_def msg3_def relay_flaky_def
      Unmarshal_def Marshal_def)

lemma process_msg4:
  "processMessage relay_flaky (scan msg4) = (Some (UnknownType ''SMS''), [])"
  by (simp add: processMessage_def scan_def msg4_def)

lemma relay_flaky_simps:
  "\<not> count_err relay_flaky" "\<not> query_err relay_flaky" "\<not> scan_err relay_flaky i"
  "rand_draw relay_flaky i = 1 / 2" "\<not> mark_err relay_flaky i"
  "mark_clock relay_flaky i = 300 + i"
  by (simp_all add: relay_flaky_def)

lemma inv_sys_relay:
  "\<forall>m \<in> set (outbox (db sys_relay)). (m_finished_at m \<noteq> None) = (m_status m = ''FINISHED'')"
  by (simp add: outbox_sys_relay msg1_def msg2_def msg3_def msg4_def)

lemma sorted_ids_distinct_rows:
  "sorted_wrt (<) (map m_id ms) \<Longrightarrow> distinct ms"
proof -
  assume "sorted_wrt (<) (map m_id ms)"
  then have "distinct (map m_id ms)" by (simp add: strict_sorted_iff)
  then show "distinct ms" by (rule distinct_map [THEN iffD1, THEN conjunct1])
qed

lemma pending_delivered_iff:
  assumes d: "distinct (map m_id (outbox (db s)))" and i: "i < length (outbox (db s))"
  shows "(\<exists>r \<in> set (select_pending (db s)).
            m_id r = m_id (outbox (db s) ! i) \<and> delivered e r) \<longleftrightarrow>
         m_status (outbox (db s) ! i) = ''PENDING'' \<and> delivered e (outbox (db s) ! i)"
proof -
  have mem: "outbox (db s) ! i \<in> set (outbox (db s))" using i by simp
  have same: "r = outbox (db s) ! i"
    if "r \<in> set (outbox (db s))" "m_id r = m_id (outbox (db s) ! i)" for r
    using d that mem by (auto simp: distinct_map inj_on_def)
  show ?thesis
    using mem same by (auto simp: select_pending_def)
qed



text \<open>
  C4. With the outbox table in rowid order, the query of the tick returns exactly the rows whose
  status is \<open>PENDING\<close>, all of them whatever their number, in ascending id; and a tick that
  gets past its two queries sends the requests of these messages in that order, one message
  after the other.
\<close>

theorem pending_batch_in_id_order:
  assumes "sorted_wrt (<) (map m_id (outbox (db s)))"
  shows "set (select_pending (db s)) = {m \<in> set (outbox (db s)). m_status m = ''PENDING''} \<and>
    length (select_pending (db s)) = card {m \<in> set (outbox (db s)). m_status m = ''PENDING''} \<and>
    sorted_wrt (<) (map m_id (select_pending (db s))) \<and>
    (\<not> count_err e \<and> \<not> query_err e \<longrightarrow>
       net (processOutboxMessages e s) =
         net s @ concat (map (dispatch_of e) (select_pending (db s))))"
proof (intro conjI)
  show set: "set (select_pending (db s)) = {m \<in> set (outbox (db s)). m_status m = ''PENDING''}"
    by (auto simp: select_pending_def)
  have "distinct (outbox (db s))" using assms by (rule sorted_ids_distinct_rows)
  then have "distinct (select_pending (db s))" by (simp add: select_pending_def)
  then have "card (set (select_pending (db s))) = length (select_pending (db s))"
    by (rule distinct_card)
  then show "length (select_pending (db s)) =
      card {m \<in> set (outbox (db s)). m_status m = ''PENDING''}"
    using set by simp
  show "sorted_wrt (<) (map m_id (select_pending (db s)))"
    using assms by (simp add: select_pending_def sorted_wrt_map sorted_wrt_filter)
  show "\<not> count_err e \<and> \<not> query_err e \<longrightarrow>
       net (processOutboxMessages e s) =
         net s @ concat (map (dispatch_of e) (select_pending (db s)))"
    by (simp add: tick_net)
qed

theorem pending_batch_in_id_order_witness:
  "sorted_wrt (<) (map m_id (outbox (db sys_relay))) \<and>
   map m_id (outbox (db sys_relay)) = [1, 2, 3, 4] \<and>
   map m_id (select_pending (db sys_relay)) = [1, 3, 4] \<and>
   card {m \<in> set (outbox (db sys_relay)). m_status m = ''PENDING''} = 3 \<and>
   map url (net (processOutboxMessages relay_flaky sys_relay)) =
     [''http://localhost:8081/send-email'', ''http://localhost:9000/events'']"
proof -
  have ids: "map m_id (outbox (db sys_relay)) = [1, 2, 3, 4]"
    by (simp add: outbox_sys_relay msg_ids)
  have h: "sorted_wrt (<) (map m_id (outbox (db sys_relay)))"
    unfolding ids by simp
  note th = pending_batch_in_id_order [OF h, of relay_flaky]
  have sp: "map m_id (select_pending (db sys_relay)) = [1, 3, 4]"
    by (simp add: select_pending_sys_relay msg_ids)
  from th have "length (select_pending (db sys_relay)) =
      card {m \<in> set (outbox (db sys_relay)). m_status m = ''PENDING''}" by blast
  then have c: "card {m \<in> set (outbox (db sys_relay)). m_status m = ''PENDING''} = 3"
    by (simp add: select_pending_sys_relay)
  from th have "net (processOutboxMessages relay_flaky sys_relay) =
      net sys_relay @ concat (map (dispatch_of relay_flaky) (select_pending (db sys_relay)))"
    by (simp add: relay_flaky_simps)
  then have n: "map url (net (processOutboxMessages relay_flaky sys_relay)) =
     [''http://localhost:8081/send-email'', ''http://localhost:9000/events'']"
    by (simp add: select_pending_sys_relay dispatch_of_def relay_flaky_simps msg_ids
        process_msg1 process_msg3 process_msg4 net_sys_relay)
  from h ids sp c n show ?thesis by blast
qed

text \<open>
  C5. A tick neither deletes nor adds an outbox row. Every row is afterwards what it was, or
  what it was with status \<open>FINISHED\<close> and \<open>finished_at\<close> set; so a row that was \<open>PENDING\<close> is
  \<open>PENDING\<close> or \<open>FINISHED\<close> afterwards, never \<open>PROCESSING\<close> or \<open>FAILED\<close>. If before the tick
  \<open>finished_at\<close> is non-null exactly in the rows whose status is \<open>FINISHED\<close>, the same holds
  after it.
\<close>

theorem tick_closure:
  "map m_id (outbox (db (processOutboxMessages e s))) = map m_id (outbox (db s)) \<and>
   (\<forall>i < length (outbox (db s)).
      outbox (db (processOutboxMessages e s)) ! i = outbox (db s) ! i \<or>
      outbox (db (processOutboxMessages e s)) ! i =
        (outbox (db s) ! i)\<lparr>m_status := ''FINISHED'',
           m_finished_at := Some (mark_clock e (m_id (outbox (db s) ! i)))\<rparr>) \<and>
   (\<forall>i < length (outbox (db s)).
      m_status (outbox (db s) ! i) = ''PENDING'' \<longrightarrow>
      m_status (outbox (db (processOutboxMessages e s)) ! i) = ''PENDING'' \<or>
      m_status (outbox (db (processOutboxMessages e s)) ! i) = ''FINISHED'') \<and>
   ((\<forall>m \<in> set (outbox (db s)). (m_finished_at m \<noteq> None) = (m_status m = ''FINISHED'')) \<longrightarrow>
    (\<forall>m \<in> set (outbox (db (processOutboxMessages e s))).
       (m_finished_at m \<noteq> None) = (m_status m = ''FINISHED'')))"
proof (intro conjI)
  show "map m_id (outbox (db (processOutboxMessages e s))) = map m_id (outbox (db s))"
    by (simp add: tick_outbox comp_def)
  show "\<forall>i < length (outbox (db s)).
      outbox (db (processOutboxMessages e s)) ! i = outbox (db s) ! i \<or>
      outbox (db (processOutboxMessages e s)) ! i =
        (outbox (db s) ! i)\<lparr>m_status := ''FINISHED'',
           m_finished_at := Some (mark_clock e (m_id (outbox (db s) ! i)))\<rparr>"
    by (simp add: tick_outbox marked_def)
  show "\<forall>i < length (outbox (db s)).
      m_status (outbox (db s) ! i) = ''PENDING'' \<longrightarrow>
      m_status (outbox (db (processOutboxMessages e s)) ! i) = ''PENDING'' \<or>
      m_status (outbox (db (processOutboxMessages e s)) ! i) = ''FINISHED''"
    by (simp add: tick_outbox marked_def)
  show "(\<forall>m \<in> set (outbox (db s)). (m_finished_at m \<noteq> None) = (m_status m = ''FINISHED'')) \<longrightarrow>
    (\<forall>m \<in> set (outbox (db (processOutboxMessages e s))).
       (m_finished_at m \<noteq> None) = (m_status m = ''FINISHED''))"
    by (auto simp: tick_outbox marked_def)
qed

theorem tick_closure_witness:
  "map (\<lambda>m. (m_finished_at m \<noteq> None) = (m_status m = ''FINISHED'')) (outbox (db sys_relay)) =
     [True, True, True, True] \<and>
   (2::nat) < length (outbox (db sys_relay)) \<and>
   m_status (outbox (db sys_relay) ! 2) = ''PENDING'' \<and>
   map m_id (outbox (db (processOutboxMessages relay_flaky sys_relay))) = [1, 2, 3, 4] \<and>
   (m_status (outbox (db (processOutboxMessages relay_flaky sys_relay)) ! 2) = ''PENDING'' \<or>
    m_status (outbox (db (processOutboxMessages relay_flaky sys_relay)) ! 2) = ''FINISHED'') \<and>
   list_all (\<lambda>m. (m_finished_at m \<noteq> None) = (m_status m = ''FINISHED''))
     (outbox (db (processOutboxMessages relay_flaky sys_relay)))"
proof -
  note th = tick_closure [of relay_flaky sys_relay]
  have i: "map (\<lambda>m. (m_finished_at m \<noteq> None) = (m_status m = ''FINISHED''))
      (outbox (db sys_relay)) = [True, True, True, True]"
    by (simp add: outbox_sys_relay msg1_def msg2_def msg3_def msg4_def)
  have l: "(2::nat) < length (outbox (db sys_relay))" by (simp add: outbox_sys_relay)
  have p: "m_status (outbox (db sys_relay) ! 2) = ''PENDING''"
    by (simp add: outbox_sys_relay msg_status)
  from th have "map m_id (outbox (db (processOutboxMessages relay_flaky sys_relay))) =
      map m_id (outbox (db sys_relay))" by blast
  then have ids: "map m_id (outbox (db (processOutboxMessages relay_flaky sys_relay))) = [1, 2, 3, 4]"
    by (simp add: outbox_sys_relay msg_ids)
  from th l p have st:
    "m_status (outbox (db (processOutboxMessages relay_flaky sys_relay)) ! 2) = ''PENDING'' \<or>
     m_status (outbox (db (processOutboxMessages relay_flaky sys_relay)) ! 2) = ''FINISHED''"
    by blast
  from th inv_sys_relay have "\<forall>m \<in> set (outbox (db (processOutboxMessages relay_flaky sys_relay))).
      (m_finished_at m \<noteq> None) = (m_status m = ''FINISHED'')"
    by blast
  then have f: "list_all (\<lambda>m. (m_finished_at m \<noteq> None) = (m_status m = ''FINISHED''))
     (outbox (db (processOutboxMessages relay_flaky sys_relay)))"
    by (simp add: list_all_iff)
  from i l p ids st f show ?thesis by blast
qed

text \<open>
  C9. Ids are unique (\<open>PRIMARY KEY\<close>). For a row that is \<open>PENDING\<close> when the tick starts: if its
  scan fails, the random failure is drawn for it, \<open>processMessage\<close> returns an error for it or
  its update fails, the row is afterwards exactly what it was, so the query of the next tick
  returns it again. A type outside \<open>EMAIL\<close>,
  \<open>NOTIFY\<close>, \<open>ANALYTIC\<close> is such an error, and so is every request that is not answered with
  status 200. If none of this happens to the row and the tick gets past its two queries, the
  row is \<open>FINISHED\<close> afterwards, whatever happened to the other rows of the tick.
\<close>

theorem relay_errors_contained:
  assumes "distinct (map m_id (outbox (db s)))"
    and "i < length (outbox (db s))"
    and "m_status (outbox (db s) ! i) = ''PENDING''"
  shows
    "((scan_err e (m_id (outbox (db s) ! i)) \<or> rand_draw e (m_id (outbox (db s) ! i)) < 3 / 10 \<or>
       fst (processMessage e (scan (outbox (db s) ! i))) \<noteq> None \<or>
       mark_err e (m_id (outbox (db s) ! i))) \<longrightarrow>
      outbox (db (processOutboxMessages e s)) ! i = outbox (db s) ! i \<and>
      outbox (db s) ! i \<in> set (select_pending (db (processOutboxMessages e s)))) \<and>
     ((m_type (outbox (db s) ! i) \<noteq> ''EMAIL'' \<and> m_type (outbox (db s) ! i) \<noteq> ''NOTIFY'' \<and>
       m_type (outbox (db s) ! i) \<noteq> ''ANALYTIC'') \<longrightarrow>
      fst (processMessage e (scan (outbox (db s) ! i))) =
        Some (UnknownType (m_type (outbox (db s) ! i)))) \<and>
     (\<forall>c \<in> set (snd (processMessage e (scan (outbox (db s) ! i)))).
        http_Post e (m_id (outbox (db s) ! i)) (url c) (body c) \<noteq> Response 200 \<longrightarrow>
        fst (processMessage e (scan (outbox (db s) ! i))) \<noteq> None) \<and>
     (\<not> count_err e \<and> \<not> query_err e \<and> \<not> scan_err e (m_id (outbox (db s) ! i)) \<and>
      \<not> rand_draw e (m_id (outbox (db s) ! i)) < 3 / 10 \<and>
      fst (processMessage e (scan (outbox (db s) ! i))) = None \<and>
      \<not> mark_err e (m_id (outbox (db s) ! i)) \<longrightarrow>
      outbox (db (processOutboxMessages e s)) ! i =
        (outbox (db s) ! i)\<lparr>m_status := ''FINISHED'',
           m_finished_at := Some (mark_clock e (m_id (outbox (db s) ! i)))\<rparr>)"
proof (intro conjI)
  have row: "outbox (db (processOutboxMessages e s)) ! i =
      (if \<not> count_err e \<and> \<not> query_err e \<and> delivered e (outbox (db s) ! i)
       then marked e (outbox (db s) ! i) else outbox (db s) ! i)"
    using assms(2,3) by (simp add: tick_outbox pending_delivered_iff [OF assms(1,2)])
  have "length (map m_id (outbox (db (processOutboxMessages e s)))) =
      length (map m_id (outbox (db s)))"
    by (simp only: tick_ids)
  then have "i < length (outbox (db (processOutboxMessages e s)))"
    using assms(2) by simp
  then have mem: "outbox (db (processOutboxMessages e s)) ! i \<in>
      set (outbox (db (processOutboxMessages e s)))"
    by (rule nth_mem)
  have again: "outbox (db s) ! i \<in> set (select_pending (db (processOutboxMessages e s)))"
    if "outbox (db (processOutboxMessages e s)) ! i = outbox (db s) ! i"
    using that mem assms(3) by (simp add: select_pending_def)
  have same: "(scan_err e (m_id (outbox (db s) ! i)) \<or>
       rand_draw e (m_id (outbox (db s) ! i)) < 3 / 10 \<or>
       fst (processMessage e (scan (outbox (db s) ! i))) \<noteq> None \<or>
       mark_err e (m_id (outbox (db s) ! i))) \<longrightarrow>
      outbox (db (processOutboxMessages e s)) ! i = outbox (db s) ! i"
    by (auto simp: row delivered_def)
  show "(scan_err e (m_id (outbox (db s) ! i)) \<or> rand_draw e (m_id (outbox (db s) ! i)) < 3 / 10 \<or>
       fst (processMessage e (scan (outbox (db s) ! i))) \<noteq> None \<or>
       mark_err e (m_id (outbox (db s) ! i))) \<longrightarrow>
      outbox (db (processOutboxMessages e s)) ! i = outbox (db s) ! i \<and>
      outbox (db s) ! i \<in> set (select_pending (db (processOutboxMessages e s)))"
    using same again by blast
  show "(m_type (outbox (db s) ! i) \<noteq> ''EMAIL'' \<and> m_type (outbox (db s) ! i) \<noteq> ''NOTIFY'' \<and>
       m_type (outbox (db s) ! i) \<noteq> ''ANALYTIC'') \<longrightarrow>
      fst (processMessage e (scan (outbox (db s) ! i))) =
        Some (UnknownType (m_type (outbox (db s) ! i)))"
    by (simp add: processMessage_def scan_def)
  show "\<forall>c \<in> set (snd (processMessage e (scan (outbox (db s) ! i)))).
        http_Post e (m_id (outbox (db s) ! i)) (url c) (body c) \<noteq> Response 200 \<longrightarrow>
        fst (processMessage e (scan (outbox (db s) ! i))) \<noteq> None"
    by (auto simp: processMessage_def handler_cases split: option.splits http_result.splits if_splits)
  show "\<not> count_err e \<and> \<not> query_err e \<and> \<not> scan_err e (m_id (outbox (db s) ! i)) \<and>
      \<not> rand_draw e (m_id (outbox (db s) ! i)) < 3 / 10 \<and>
      fst (processMessage e (scan (outbox (db s) ! i))) = None \<and>
      \<not> mark_err e (m_id (outbox (db s) ! i)) \<longrightarrow>
      outbox (db (processOutboxMessages e s)) ! i =
        (outbox (db s) ! i)\<lparr>m_status := ''FINISHED'',
           m_finished_at := Some (mark_clock e (m_id (outbox (db s) ! i)))\<rparr>"
    by (simp add: row delivered_def marked_def)
qed

theorem relay_errors_contained_witness:
  "distinct (map m_id (outbox (db sys_relay))) \<and>
   (0::nat) < length (outbox (db sys_relay)) \<and> (2::nat) < length (outbox (db sys_relay)) \<and>
   (3::nat) < length (outbox (db sys_relay)) \<and>
   m_status (outbox (db sys_relay) ! 0) = ''PENDING'' \<and>
   m_status (outbox (db sys_relay) ! 2) = ''PENDING'' \<and>
   m_status (outbox (db sys_relay) ! 3) = ''PENDING'' \<and>
   fst (processMessage relay_flaky (scan (outbox (db sys_relay) ! 0))) = Some (BadStatus 500) \<and>
   outbox (db (processOutboxMessages relay_flaky sys_relay)) ! 0 = msg1 \<and>
   msg1 \<in> set (select_pending (db (processOutboxMessages relay_flaky sys_relay))) \<and>
   fst (processMessage relay_flaky (scan (outbox (db sys_relay) ! 3))) = Some (UnknownType ''SMS'') \<and>
   outbox (db (processOutboxMessages relay_flaky sys_relay)) ! 3 = msg4 \<and>
   outbox (db (processOutboxMessages relay_flaky sys_relay)) ! 2 =
     msg3\<lparr>m_status := ''FINISHED'', m_finished_at := Some 303\<rparr>"
proof -
  have d: "distinct (map m_id (outbox (db sys_relay)))"
    by (simp add: outbox_sys_relay msg_ids)
  have l: "(0::nat) < length (outbox (db sys_relay))" "(2::nat) < length (outbox (db sys_relay))"
    "(3::nat) < length (outbox (db sys_relay))"
    by (simp_all add: outbox_sys_relay)
  have n: "outbox (db sys_relay) ! 0 = msg1" "outbox (db sys_relay) ! 2 = msg3"
    "outbox (db sys_relay) ! 3 = msg4"
    by (simp_all add: outbox_sys_relay)
  have p: "m_status (outbox (db sys_relay) ! 0) = ''PENDING''"
    "m_status (outbox (db sys_relay) ! 2) = ''PENDING''"
    "m_status (outbox (db sys_relay) ! 3) = ''PENDING''"
    by (simp_all add: n msg_status)
  note th0 = relay_errors_contained [OF d l(1) p(1), of relay_flaky, unfolded n]
  note th2 = relay_errors_contained [OF d l(2) p(2), of relay_flaky, unfolded n]
  note th3 = relay_errors_contained [OF d l(3) p(3), of relay_flaky, unfolded n]
  have e0: "fst (processMessage relay_flaky (scan msg1)) = Some (BadStatus 500)"
    by (simp add: process_msg1)
  with th0 have r0: "outbox (db (processOutboxMessages relay_flaky sys_relay)) ! 0 = msg1"
    and q0: "msg1 \<in> set (select_pending (db (processOutboxMessages relay_flaky sys_relay)))"
    by simp_all
  have "m_type msg4 \<noteq> ''EMAIL'' \<and> m_type msg4 \<noteq> ''NOTIFY'' \<and> m_type msg4 \<noteq> ''ANALYTIC''"
    by (simp add: msg4_def)
  with th3 have "fst (processMessage relay_flaky (scan msg4)) = Some (UnknownType (m_type msg4))"
    by blast
  then have e3: "fst (processMessage relay_flaky (scan msg4)) = Some (UnknownType ''SMS'')"
    by (simp add: msg4_def)
  with th3 have r3: "outbox (db (processOutboxMessages relay_flaky sys_relay)) ! 3 = msg4"
    by simp
  have e2: "fst (processMessage relay_flaky (scan msg3)) = None"
    by (simp add: process_msg3)
  have c2: "\<not> count_err relay_flaky \<and> \<not> query_err relay_flaky \<and>
      \<not> scan_err relay_flaky (m_id msg3) \<and> \<not> rand_draw relay_flaky (m_id msg3) < 3 / 10 \<and>
      fst (processMessage relay_flaky (scan msg3)) = None \<and> \<not> mark_err relay_flaky (m_id msg3)"
    by (simp add: relay_flaky_simps e2)
  with th2 have "outbox (db (processOutboxMessages relay_flaky sys_relay)) ! 2 =
      msg3\<lparr>m_status := ''FINISHED'', m_finished_at := Some (mark_clock relay_flaky (m_id msg3))\<rparr>"
    by blast
  then have r2: "outbox (db (processOutboxMessages relay_flaky sys_relay)) ! 2 =
      msg3\<lparr>m_status := ''FINISHED'', m_finished_at := Some 303\<rparr>"
    by (simp add: relay_flaky_simps msg_ids)
  from d l p e0 r0 q0 e3 r3 r2 show ?thesis unfolding n by blast
qed

end
